theory Spec2Isabelle
  imports Complex_Main "HOL-Library.Monad_Syntax"
begin

section \<open>Spaceship simulator: a shallow embedding of the physics engine\<close>

text \<open>
  The development follows the modules \<^verbatim>\<open>components.py\<close>, \<^verbatim>\<open>physics.py\<close> and
  \<^verbatim>\<open>spaceship.py\<close> of the package \<^verbatim>\<open>spaceship_sim\<close>.

  Conventions of the embedding.
  \<^item> A Python \<^verbatim>\<open>float\<close> is a real number: arithmetic is exact, there is no rounding,
    overflow, infinity or NaN. Every equation proved below is an equation of real
    arithmetic.
  \<^item> The only exception the engine can raise on real inputs is \<^verbatim>\<open>ZeroDivisionError\<close>
    (float division by zero). Division is therefore the partial operation \<open>fdiv\<close>; a
    function that divides returns an \<open>option\<close>, and \<open>None\<close> is the raised exception.
  \<^item> Mutation is state passing: \<^verbatim>\<open>compute_propulsion\<close> returns the drained tank list
    beside its result and \<^verbatim>\<open>simulate_step\<close> returns the new craft. Lists of values stand
    for lists of distinct objects (every component of a craft is attached once). Where a
    property depends on a list that may hold one tank object twice, the tanks live in a
    store and the list holds references (\<open>compute_propulsion_refs\<close>).
  \<^item> The names of the source are kept, except \<open>length_v\<close>, \<open>normalize_v\<close>, \<open>rotate_v\<close>,
    \<open>size_wh\<close> (the field \<^verbatim>\<open>size\<close>) and \<open>linear_f\<close> (the field \<^verbatim>\<open>linear\<close>), whose names
    are taken by the library, and \<open>Spaceship_mass\<close> (the property \<^verbatim>\<open>Spaceship.mass\<close>).
\<close>

subsection \<open>Floating-point division and the library functions of \<^verbatim>\<open>math\<close>\<close>

type_synonym Vector2 = "real \<times> real"

definition fdiv :: "real \<Rightarrow> real \<Rightarrow> real option" where
  "fdiv a b = (if b = 0 then None else Some (a / b))"

text \<open>The builtin \<^verbatim>\<open>sum\<close>: a left fold that starts at zero.\<close>

definition py_sum :: "real list \<Rightarrow> real" where
  "py_sum xs = foldl (+) 0 xs"

definition hypot :: "real \<Rightarrow> real \<Rightarrow> real" where
  "hypot x y = sqrt (x\<^sup>2 + y\<^sup>2)"

definition degrees :: "real \<Rightarrow> real" where
  "degrees x = x * 180 / pi"

definition radians :: "real \<Rightarrow> real" where
  "radians x = x * pi / 180"

definition atan2 :: "real \<Rightarrow> real \<Rightarrow> real" where
  "atan2 y x =
     (if 0 < x then arctan (y / x)
      else if x < 0 then (if 0 \<le> y then arctan (y / x) + pi else arctan (y / x) - pi)
      else if 0 < y then pi / 2
      else if y < 0 then - pi / 2
      else 0)"

subsection \<open>\<^verbatim>\<open>components.py\<close>\<close>

record Component =
  name :: string
  mass :: real
  position :: Vector2
  size_wh :: Vector2
  drag_area :: real
  inertia_override :: "real option"

record Engine = Component +
  thrust :: real
  fuel_consumption :: real
  gimbal_limit :: real
  direction :: Vector2

record FuelTank = Component +
  fuel_capacity :: real
  fuel_level :: real

record Wing = Component +
  area :: real
  lift_curve :: real
  stall_angle :: real

text \<open>
  The list \<^verbatim>\<open>Spaceship.components\<close> holds every component that is no engine, tank or
  wing: a plain \<^verbatim>\<open>Component\<close>, a \<^verbatim>\<open>HullSection\<close> or a \<^verbatim>\<open>Cockpit\<close>.
\<close>

datatype Variant = Plain | HullSection (structural_integrity: real) | Cockpit (crew_capacity: int)

record Part = Component +
  variant :: Variant

text \<open>The property \<^verbatim>\<open>Component.inertia\<close>, inherited by every subclass.\<close>

definition inertia :: "'a Component_scheme \<Rightarrow> real" where
  "inertia c =
     (case inertia_override c of
        Some v \<Rightarrow> v
      | None \<Rightarrow> (let (width, height) = size_wh c
                 in (mass c * (width\<^sup>2 + height\<^sup>2)) / 12))"

subsection \<open>\<^verbatim>\<open>physics.py\<close>: vector helpers\<close>

definition EARTH_GRAVITY :: real where
  "EARTH_GRAVITY = 980665 / 100000"

definition ATMOSPHERIC_DENSITY :: real where
  "ATMOSPHERIC_DENSITY = 1225 / 1000"

definition DRAG_COEFFICIENT :: real where
  "DRAG_COEFFICIENT = 7 / 10"

definition add :: "Vector2 \<Rightarrow> Vector2 \<Rightarrow> Vector2" where
  "add a b = (fst a + fst b, snd a + snd b)"

definition sub :: "Vector2 \<Rightarrow> Vector2 \<Rightarrow> Vector2" where
  "sub a b = (fst a - fst b, snd a - snd b)"

definition mul :: "Vector2 \<Rightarrow> real \<Rightarrow> Vector2" where
  "mul a scalar = (fst a * scalar, snd a * scalar)"

definition length_v :: "Vector2 \<Rightarrow> real" where
  "length_v v = hypot (fst v) (snd v)"

definition normalize_v :: "Vector2 \<Rightarrow> Vector2 option" where
  "normalize_v v =
     (let mag = length_v v
      in if mag = 0 then Some (0, 0)
         else do { x \<leftarrow> fdiv (fst v) mag; y \<leftarrow> fdiv (snd v) mag; Some (x, y) })"

definition rotate_v :: "Vector2 \<Rightarrow> real \<Rightarrow> Vector2" where
  "rotate_v v angle =
     (let c = cos angle; s = sin angle
      in (fst v * c - snd v * s, fst v * s + snd v * c))"

definition dot :: "Vector2 \<Rightarrow> Vector2 \<Rightarrow> real" where
  "dot a b = fst a * fst b + snd a * snd b"

definition cross_z :: "Vector2 \<Rightarrow> Vector2 \<Rightarrow> real" where
  "cross_z a b = fst a * snd b - snd a * fst b"

subsection \<open>\<^verbatim>\<open>physics.py\<close>: the integrator\<close>

definition integrate ::
  "Vector2 \<Rightarrow> Vector2 \<Rightarrow> real \<Rightarrow> real \<Rightarrow> Vector2 \<Rightarrow> real \<Rightarrow> real \<Rightarrow> real \<Rightarrow> real
   \<Rightarrow> (Vector2 \<times> Vector2 \<times> real \<times> real) option" where
  "integrate pos vel ori ang_vel force torque m inert dt =
     do {
       acceleration \<leftarrow>
         (if 0 < m then do { k \<leftarrow> fdiv 1 m; Some (mul force k) } else Some (0, 0));
       let vel = add vel (mul acceleration dt);
       let pos = add pos (mul vel dt);
       angular_acc \<leftarrow> (if 0 < inert then fdiv torque inert else Some 0);
       let ang_vel = ang_vel + angular_acc * dt;
       let ori = ori + ang_vel * dt;
       Some (pos, vel, ori, ang_vel)
     }"

text \<open>
  The two orderings of the Euler method, written from their textbook definitions. The
  semi-implicit scheme advances the position with the updated velocity, the explicit
  scheme with the velocity of the start of the step.
\<close>

definition semi_implicit_euler ::
  "Vector2 \<Rightarrow> Vector2 \<Rightarrow> real \<Rightarrow> real \<Rightarrow> Vector2 \<Rightarrow> real \<Rightarrow> real
   \<Rightarrow> Vector2 \<times> Vector2 \<times> real \<times> real" where
  "semi_implicit_euler p v ori w a alpha dt =
     (let v' = (fst v + fst a * dt, snd v + snd a * dt);
          p' = (fst p + fst v' * dt, snd p + snd v' * dt);
          w' = w + alpha * dt;
          ori' = ori + w' * dt
      in (p', v', ori', w'))"

definition explicit_euler ::
  "Vector2 \<Rightarrow> Vector2 \<Rightarrow> real \<Rightarrow> real \<Rightarrow> Vector2 \<Rightarrow> real \<Rightarrow> real
   \<Rightarrow> Vector2 \<times> Vector2 \<times> real \<times> real" where
  "explicit_euler p v ori w a alpha dt =
     (let v' = (fst v + fst a * dt, snd v + snd a * dt);
          p' = (fst p + fst v * dt, snd p + snd v * dt);
          w' = w + alpha * dt;
          ori' = ori + w * dt
      in (p', v', ori', w'))"

subsection \<open>\<^verbatim>\<open>physics.py\<close>: the force models\<close>

definition aerodynamic_drag :: "Vector2 \<Rightarrow> real \<Rightarrow> real \<Rightarrow> Vector2 option" where
  "aerodynamic_drag velocity reference_area cd =
     (let speed = length_v velocity
      in if speed = 0 then Some (0, 0)
         else (let drag_magnitude = (1 / 2) * ATMOSPHERIC_DENSITY * cd * reference_area * speed\<^sup>2
               in do { n \<leftarrow> normalize_v (mul velocity (- 1)); Some (mul n drag_magnitude) }))"

definition aerodynamic_lift :: "Wing \<Rightarrow> Vector2 \<Rightarrow> Vector2" where
  "aerodynamic_lift wing velocity_body =
     (let speed = length_v velocity_body
      in if speed = 0 then (0, 0)
         else (let angle = degrees (atan2 (snd velocity_body) (fst velocity_body));
                   alpha = max (min (- angle) (stall_angle wing)) (- stall_angle wing);
                   cl = lift_curve wing * radians alpha;
                   q = (1 / 2) * ATMOSPHERIC_DENSITY * speed\<^sup>2;
                   lift_magnitude = cl * q * area wing;
                   lift_direction = (0, 1)
               in mul lift_direction lift_magnitude))"

record PropulsionResult =
  force :: Vector2
  torque :: real
  fuel_used :: real

record ForceResult =
  linear_f :: Vector2
  torque :: real

text \<open>
  The loop over the engines of \<^verbatim>\<open>compute_propulsion\<close>; the accumulator is
  \<^verbatim>\<open>(total_force, total_torque, fuel_needed)\<close>.
\<close>

fun engine_loop ::
  "Engine list \<Rightarrow> real \<Rightarrow> real \<Rightarrow> Vector2 \<Rightarrow> Vector2 \<times> real \<times> real \<Rightarrow> Vector2 \<times> real \<times> real" where
  "engine_loop [] throttle ori com acc = acc"
| "engine_loop (engine # rest) throttle ori com (total_force, total_torque, fuel_needed) =
     (let thrust_vector = rotate_v (direction engine) ori;
          thrust_force = mul thrust_vector (thrust engine * throttle);
          lever = sub (Component.position engine) com
      in engine_loop rest throttle ori com
           (add total_force thrust_force,
            total_torque + cross_z lever thrust_force,
            fuel_needed + fuel_consumption engine * throttle))"

text \<open>
  The loop that drains the tanks in list order; it stops (\<^verbatim>\<open>break\<close>) as soon as nothing
  is left to drain.
\<close>

fun drain_loop :: "real \<Rightarrow> FuelTank list \<Rightarrow> FuelTank list" where
  "drain_loop drain [] = []"
| "drain_loop drain (tank # rest) =
     (if drain \<le> 0 then tank # rest
      else (let taken = min (fuel_level tank) drain
            in tank\<lparr>fuel_level := fuel_level tank - taken\<rparr> # drain_loop (drain - taken) rest))"

definition compute_propulsion ::
  "Engine list \<Rightarrow> FuelTank list \<Rightarrow> real \<Rightarrow> real \<Rightarrow> Vector2
   \<Rightarrow> (PropulsionResult \<times> FuelTank list) option" where
  "compute_propulsion engines fuel_tanks throttle ori com =
     (let throttle = max 0 (min 1 throttle);
          (total_force, total_torque, fuel_needed) =
             engine_loop engines throttle ori com ((0, 0), 0, 0);
          fuel_available = py_sum (map fuel_level fuel_tanks);
          fuel_used = min fuel_available fuel_needed
      in do {
           (total_force, total_torque) \<leftarrow>
             (if 0 < fuel_needed
              then do { scale \<leftarrow> fdiv fuel_used fuel_needed;
                        Some (mul total_force scale, total_torque * scale) }
              else Some (total_force, total_torque));
           let fuel_tanks = (if 0 < fuel_used then drain_loop fuel_used fuel_tanks else fuel_tanks);
           Some (\<lparr>force = total_force, torque = total_torque, fuel_used = fuel_used\<rparr>, fuel_tanks)
         })"





text \<open>The two loops of \<^verbatim>\<open>compute_aero_forces\<close>, over the components and over the wings.\<close>

fun drag_loop ::
  "Component list \<Rightarrow> Vector2 \<Rightarrow> real \<Rightarrow> real \<Rightarrow> Vector2 \<Rightarrow> Vector2 \<times> real
   \<Rightarrow> (Vector2 \<times> real) option" where
  "drag_loop [] vel ang_vel ori com acc = Some acc"
| "drag_loop (c # rest) vel ang_vel ori com (total_force, total_torque) =
     (let world_velocity =
            add vel (- ang_vel * (snd (Component.position c) - snd com),
                     ang_vel * (fst (Component.position c) - fst com))
      in do {
           drag_force_body \<leftarrow>
             aerodynamic_drag (rotate_v world_velocity (- ori)) (drag_area c) DRAG_COEFFICIENT;
           let drag_force_world = rotate_v drag_force_body ori;
           let lever = sub (Component.position c) com;
           drag_loop rest vel ang_vel ori com
             (add total_force drag_force_world, total_torque + cross_z lever drag_force_world)
         })"

fun lift_loop ::
  "Wing list \<Rightarrow> Vector2 \<Rightarrow> real \<Rightarrow> real \<Rightarrow> Vector2 \<Rightarrow> Vector2 \<times> real \<Rightarrow> Vector2 \<times> real" where
  "lift_loop [] vel ang_vel ori com acc = acc"
| "lift_loop (wing # rest) vel ang_vel ori com (total_force, total_torque) =
     (let world_velocity =
            add vel (- ang_vel * (snd (Component.position wing) - snd com),
                     ang_vel * (fst (Component.position wing) - fst com));
          velocity_body = rotate_v world_velocity (- ori);
          lift_body = aerodynamic_lift wing velocity_body;
          lift_world = rotate_v lift_body ori;
          lever = sub (Component.position wing) com
      in lift_loop rest vel ang_vel ori com
           (add total_force lift_world, total_torque + cross_z lever lift_world))"

definition compute_aero_forces ::
  "Component list \<Rightarrow> Wing list \<Rightarrow> Vector2 \<Rightarrow> real \<Rightarrow> real \<Rightarrow> Vector2 \<Rightarrow> ForceResult option" where
  "compute_aero_forces comps wings vel ang_vel ori com =
     do {
       acc \<leftarrow> drag_loop comps vel ang_vel ori com ((0, 0), 0);
       let (total_force, total_torque) = lift_loop wings vel ang_vel ori com acc;
       Some \<lparr>linear_f = total_force, torque = total_torque\<rparr>
     }"

subsection \<open>\<^verbatim>\<open>spaceship.py\<close>\<close>

record Spaceship =
  components :: "Part list"
  engines :: "Engine list"
  fuel_tanks :: "FuelTank list"
  wings :: "Wing list"
  position :: Vector2
  velocity :: Vector2
  orientation :: real
  angular_velocity :: real

text \<open>
  \<^verbatim>\<open>all_components\<close> yields the four lists in turn. Its consumers read the fields of the
  base class only, so each object is yielded as its \<open>Component\<close> part.
\<close>

definition all_components :: "Spaceship \<Rightarrow> Component list" where
  "all_components s =
     map Component.truncate (components s) @ map Component.truncate (engines s) @
     map Component.truncate (fuel_tanks s) @ map Component.truncate (wings s)"

definition Spaceship_mass :: "Spaceship \<Rightarrow> real" where
  "Spaceship_mass s = py_sum (map mass (all_components s))"

definition center_of_mass :: "Spaceship \<Rightarrow> Vector2 option" where
  "center_of_mass s =
     (let total_mass = Spaceship_mass s
      in if total_mass = 0 then Some (0, 0)
         else do {
           cx \<leftarrow> fdiv (py_sum (map (\<lambda>c. fst (Component.position c) * mass c) (all_components s)))
                   total_mass;
           cy \<leftarrow> fdiv (py_sum (map (\<lambda>c. snd (Component.position c) * mass c) (all_components s)))
                   total_mass;
           Some (cx, cy)
         })"

fun inertia_loop :: "Component list \<Rightarrow> Vector2 \<Rightarrow> real \<Rightarrow> real" where
  "inertia_loop [] com acc = acc"
| "inertia_loop (c # rest) com acc =
     (let r = sub (Component.position c) com
      in inertia_loop rest com (acc + (inertia c + mass c * ((fst r)\<^sup>2 + (snd r)\<^sup>2))))"

definition moment_of_inertia :: "Spaceship \<Rightarrow> real option" where
  "moment_of_inertia s =
     do { com \<leftarrow> center_of_mass s; Some (inertia_loop (all_components s) com 0) }"

text \<open>
  \<^verbatim>\<open>attach\<close> files a component by its class, tested in the order engine, fuel tank, wing;
  the argument is the tagged union of the four kinds.
\<close>

datatype Attachable = AnEngine Engine | ATank FuelTank | AWing Wing | APart Part

fun attach :: "Spaceship \<Rightarrow> Attachable \<Rightarrow> Spaceship" where
  "attach s (AnEngine c) = s\<lparr>engines := engines s @ [c]\<rparr>"
| "attach s (ATank c) = s\<lparr>fuel_tanks := fuel_tanks s @ [c]\<rparr>"
| "attach s (AWing c) = s\<lparr>wings := wings s @ [c]\<rparr>"
| "attach s (APart c) = s\<lparr>components := components s @ [c]\<rparr>"


text \<open>
  \<^verbatim>\<open>apply_controls\<close> drains the tanks of the craft through \<^verbatim>\<open>compute_propulsion\<close>; the
  craft with the drained tanks is returned beside the two results.
\<close>

definition apply_controls ::
  "Spaceship \<Rightarrow> real \<Rightarrow> (string \<rightharpoonup> real) \<Rightarrow> (PropulsionResult \<times> ForceResult \<times> Spaceship) option" where
  "apply_controls s throttle control_surfaces =
     do {
       com \<leftarrow> center_of_mass s;
       (propulsion, tanks) \<leftarrow> compute_propulsion (engines s) (fuel_tanks s) throttle (orientation s) com;
       let s = s\<lparr>fuel_tanks := tanks\<rparr>;
       aero \<leftarrow> compute_aero_forces (all_components s) (wings s) (velocity s) (angular_velocity s)
                 (orientation s) com;
       Some (propulsion, aero, s)
     }"

definition simulate_step ::
  "Spaceship \<Rightarrow> real \<Rightarrow> real \<Rightarrow> (string \<rightharpoonup> real) option \<Rightarrow> Spaceship option" where
  "simulate_step s throttle dt control_surfaces =
     (let control_surfaces = (case control_surfaces of None \<Rightarrow> Map.empty | Some d \<Rightarrow> d)
      in do {
           (propulsion, aero, s) \<leftarrow> apply_controls s throttle control_surfaces;
           let weight = (0, - Spaceship_mass s * EARTH_GRAVITY);
           let total_force = add (add (force propulsion) (linear_f aero)) weight;
           com \<leftarrow> center_of_mass s;
           let gravity_torque = 0;
           let total_torque = PropulsionResult.torque propulsion + ForceResult.torque aero + gravity_torque;
           moi \<leftarrow> moment_of_inertia s;
           (p, v, ori, w) \<leftarrow>
             integrate (position s) (velocity s) (orientation s) (angular_velocity s)
               total_force total_torque (Spaceship_mass s) (max moi (1 / 1000)) dt;
           Some (s\<lparr>position := p, velocity := v, orientation := ori, angular_velocity := w\<rparr>)
         })"

subsection \<open>Notions of the specification\<close>

text \<open>
  The quantities the specification speaks about, written from its words and not from the
  loops of the code: the invariant of a fuel tank, the fuel available in the tanks, the
  fuel required by the engines at a (clamped) throttle, and the nominal force and torque,
  that is the sums over the engines before any derating.
\<close>

definition tank_invariant :: "FuelTank \<Rightarrow> bool" where
  "tank_invariant t \<longleftrightarrow> 0 \<le> fuel_level t \<and> fuel_level t \<le> fuel_capacity t"

definition fuel_available :: "FuelTank list \<Rightarrow> real" where
  "fuel_available ts = (\<Sum>t\<leftarrow>ts. fuel_level t)"

definition fuel_required :: "Engine list \<Rightarrow> real \<Rightarrow> real" where
  "fuel_required es th = (\<Sum>e\<leftarrow>es. fuel_consumption e * th)"

definition engine_force :: "Engine \<Rightarrow> real \<Rightarrow> real \<Rightarrow> Vector2" where
  "engine_force e th ori = mul (rotate_v (direction e) ori) (thrust e * th)"

definition nominal_force :: "Engine list \<Rightarrow> real \<Rightarrow> real \<Rightarrow> Vector2" where
  "nominal_force es th ori =
     ((\<Sum>e\<leftarrow>es. fst (engine_force e th ori)), (\<Sum>e\<leftarrow>es. snd (engine_force e th ori)))"

definition nominal_torque :: "Engine list \<Rightarrow> real \<Rightarrow> real \<Rightarrow> Vector2 \<Rightarrow> real" where
  "nominal_torque es th ori com =
     (\<Sum>e\<leftarrow>es. cross_z (sub (Component.position e) com) (engine_force e th ori))"


subsection \<open>Concrete crafts\<close>

text \<open>
  The starvation scenario: one engine that needs 10 units of fuel at full throttle and one
  tank that holds 5; and a craft with no component at all.
\<close>

definition starved_engine :: Engine where
  "starved_engine =
     \<lparr>name = ''engine'', mass = 1, Component.position = (0, 0), size_wh = (1, 1), drag_area = 0,
      inertia_override = None, thrust = 100, fuel_consumption = 10, gimbal_limit = 0,
      direction = (1, 0)\<rparr>"

definition starved_tank :: FuelTank where
  "starved_tank =
     \<lparr>name = ''tank'', mass = 1, Component.position = (0, 0), size_wh = (1, 1), drag_area = 0,
      inertia_override = None, fuel_capacity = 20, fuel_level = 5\<rparr>"

definition starved_craft :: Spaceship where
  "starved_craft =
     \<lparr>components = [], engines = [starved_engine], fuel_tanks = [starved_tank], wings = [],
      position = (0, 0), velocity = (0, 0), orientation = 0, angular_velocity = 0\<rparr>"

definition empty_craft :: Spaceship where
  "empty_craft =
     \<lparr>components = [], engines = [], fuel_tanks = [], wings = [],
      position = (0, 0), velocity = (0, 0), orientation = pi / 2, angular_velocity = 0\<rparr>"

text \<open>The starved craft after one step at full throttle with \<open>dt = 1\<close>.\<close>

definition starved_craft_after :: Spaceship where
  "starved_craft_after =
     starved_craft\<lparr>fuel_tanks := [starved_tank\<lparr>fuel_level := 0\<rparr>],
                   position := (25, - (980665 / 100000)),
                   velocity := (25, - (980665 / 100000))\<rparr>"






text \<open>
  A craft with one component in each of its four lists, the cockpit with an inertia
  override; and a craft of two equal boosters at \<open>(1, 2)\<close> and \<open>(- 1, - 2)\<close>.
\<close>

definition mixed_part :: Part where
  "mixed_part =
     \<lparr>name = ''cockpit'', mass = 2, Component.position = (0, 2), size_wh = (1, 1), drag_area = 1,
      inertia_override = Some 7, variant = Cockpit 1\<rparr>"

definition mixed_engine :: Engine where
  "mixed_engine =
     \<lparr>name = ''engine'', mass = 4, Component.position = (0, - 1), size_wh = (3, 3),
      drag_area = 1, inertia_override = None, thrust = 100, fuel_consumption = 1,
      gimbal_limit = 0, direction = (1, 0)\<rparr>"

definition mixed_tank :: FuelTank where
  "mixed_tank =
     \<lparr>name = ''tank'', mass = 1, Component.position = (3, 0), size_wh = (6, 6), drag_area = 1,
      inertia_override = None, fuel_capacity = 10, fuel_level = 10\<rparr>"

definition mixed_wing :: Wing where
  "mixed_wing =
     \<lparr>name = ''wing'', mass = 1, Component.position = (1, 0), size_wh = (0, 6), drag_area = 1,
      inertia_override = None, area = 2, lift_curve = 5, stall_angle = 15\<rparr>"

definition mixed_craft :: Spaceship where
  "mixed_craft =
     \<lparr>components = [mixed_part], engines = [mixed_engine], fuel_tanks = [mixed_tank],
      wings = [mixed_wing], position = (0, 0), velocity = (0, 0), orientation = pi / 2,
      angular_velocity = 0\<rparr>"

definition twin_engine :: "Vector2 \<Rightarrow> Engine" where
  "twin_engine p =
     \<lparr>name = ''booster'', mass = 3, Component.position = p, size_wh = (2, 4), drag_area = 1,
      inertia_override = None, thrust = 100, fuel_consumption = 1, gimbal_limit = 0,
      direction = (1, 0)\<rparr>"

definition twin_craft :: Spaceship where
  "twin_craft =
     \<lparr>components = [], engines = [twin_engine (1, 2), twin_engine (- 1, - 2)], fuel_tanks = [],
      wings = [], position = (0, 0), velocity = (0, 0), orientation = pi / 2,
      angular_velocity = 0\<rparr>"


section \<open>Properties\<close>

subsection \<open>Division and sums\<close>

lemma fdiv_nonzero: "b \<noteq> 0 \<Longrightarrow> fdiv a b = Some (a / b)"
  by (simp add: fdiv_def)

lemma foldl_plus_start: "foldl (+) (a::real) xs = a + sum_list xs"
  by (induction xs arbitrary: a) simp_all

lemma py_sum_sum_list: "py_sum xs = sum_list xs"
  by (simp add: py_sum_def foldl_plus_start)

subsection \<open>The guarded divisions never fail\<close>

lemma length_v_zero [simp]: "length_v (0, 0) = 0"
  by (simp add: length_v_def hypot_def)


lemma normalize_v_total:
  "normalize_v v =
     Some (if length_v v = 0 then (0, 0) else (fst v / length_v v, snd v / length_v v))"
  by (simp add: normalize_v_def Let_def fdiv_def)

lemma aerodynamic_drag_total:
  "aerodynamic_drag v a cd =
     Some (if length_v v = 0 then (0, 0)
           else mul (- fst v / length_v v, - snd v / length_v v)
                  ((1 / 2) * ATMOSPHERIC_DENSITY * cd * a * (length_v v)\<^sup>2))"
  by (simp add: aerodynamic_drag_def Let_def normalize_v_total mul_def length_v_def hypot_def)

lemma rotate_v_zero [simp]: "rotate_v (0, 0) a = (0, 0)"
  by (simp add: rotate_v_def)

lemma cross_z_zero [simp]: "cross_z l (0, 0) = 0"
  by (simp add: cross_z_def)

lemma add_zero_right [simp]: "add a (0, 0) = a"
  by (simp add: add_def)

lemma drag_loop_total: "drag_loop cs v w ori com acc \<noteq> None"
proof (induction cs arbitrary: acc)
  case Nil
  show ?case by simp
next
  case (Cons c cs)
  obtain F T where acc: "acc = (F, T)" by (cases acc)
  show ?case
    unfolding acc by (simp add: aerodynamic_drag_total Let_def Cons.IH)
qed

lemma drag_loop_at_rest: "drag_loop cs (0, 0) 0 ori com acc = Some acc"
proof (induction cs arbitrary: acc)
  case Nil
  show ?case by simp
next
  case (Cons c cs)
  obtain F T where acc: "acc = (F, T)" by (cases acc)
  show ?case
    unfolding acc by (simp add: aerodynamic_drag_total Cons.IH[unfolded acc] add_def)
qed

lemma aerodynamic_lift_at_rest: "aerodynamic_lift wing (0, 0) = (0, 0)"
  by (simp add: aerodynamic_lift_def)

lemma lift_loop_at_rest: "lift_loop ws (0, 0) 0 ori com acc = acc"
proof (induction ws arbitrary: acc)
  case Nil
  show ?case by simp
next
  case (Cons c cs)
  obtain F T where acc: "acc = (F, T)" by (cases acc)
  show ?case
    unfolding acc by (simp add: aerodynamic_lift_at_rest Cons.IH[unfolded acc] add_def)
qed

lemma compute_aero_forces_total: "compute_aero_forces cs ws v w ori com \<noteq> None"
  using drag_loop_total [of cs v w ori com "((0, 0), 0)"]
  by (auto simp: compute_aero_forces_def split: prod.splits)

lemma center_of_mass_total:
  "center_of_mass s =
     Some (if Spaceship_mass s = 0 then (0, 0)
           else (sum_list (map (\<lambda>c. fst (Component.position c) * mass c) (all_components s)) / Spaceship_mass s,
                 sum_list (map (\<lambda>c. snd (Component.position c) * mass c) (all_components s)) / Spaceship_mass s))"
  by (simp add: center_of_mass_def Let_def fdiv_def py_sum_sum_list)

lemma integrate_total: "integrate p v ori w f tq m i dt \<noteq> None"
  by (simp add: integrate_def fdiv_def Let_def)

subsection \<open>The integrator\<close>

text \<open>
  Claim C5. For every input, \<open>integrate\<close> returns (it never divides by zero) and its
  result is the semi-implicit Euler step for the linear acceleration \<open>force / mass\<close>
  (zero when \<open>mass \<le> 0\<close>) and the angular acceleration \<open>torque / inertia\<close> (zero when
  \<open>inertia \<le> 0\<close>): the velocity is advanced first and the position is advanced with the
  updated velocity, the angular velocity is advanced first and the orientation is advanced
  with the updated angular velocity. On the input with unit force, unit torque, unit mass,
  unit inertia and unit step from rest, this differs from the explicit Euler step.
\<close>

theorem integrate_semi_implicit_euler:
  "integrate p v ori w f tq m i dt =
     Some (semi_implicit_euler p v ori w
             (if 0 < m then (fst f / m, snd f / m) else (0, 0))
             (if 0 < i then tq / i else 0) dt)
   \<and> fst (semi_implicit_euler p v ori w a alpha dt) =
       (fst p + (fst v + fst a * dt) * dt, snd p + (snd v + snd a * dt) * dt)
   \<and> fst (snd (semi_implicit_euler p v ori w a alpha dt)) =
       (fst v + fst a * dt, snd v + snd a * dt)
   \<and> fst (snd (snd (semi_implicit_euler p v ori w a alpha dt))) = ori + (w + alpha * dt) * dt
   \<and> snd (snd (snd (semi_implicit_euler p v ori w a alpha dt))) = w + alpha * dt
   \<and> integrate (0, 0) (0, 0) 0 0 (1, 1) 1 1 1 1 \<noteq> Some (explicit_euler (0, 0) (0, 0) 0 0 (1, 1) 1 1)"
  by (simp add: integrate_def semi_implicit_euler_def explicit_euler_def fdiv_def add_def mul_def
      Let_def divide_inverse)

subsection \<open>Propulsion and the simulation step always return\<close>

lemma returnsE: "x \<noteq> None \<Longrightarrow> (\<And>y. x = Some y \<Longrightarrow> P) \<Longrightarrow> P"
  by auto

lemma compute_propulsion_eq:
  fixes es ts th ori com
  defines "acc \<equiv> engine_loop es (max 0 (min 1 th)) ori com ((0, 0), 0, 0)"
  defines "U \<equiv> min (sum_list (map fuel_level ts)) (snd (snd acc))"
  shows "compute_propulsion es ts th ori com =
     Some (\<lparr>force = (if 0 < snd (snd acc) then mul (fst acc) (U / snd (snd acc)) else fst acc),
             torque = (if 0 < snd (snd acc) then fst (snd acc) * (U / snd (snd acc))
                       else fst (snd acc)),
             fuel_used = U\<rparr>,
           if 0 < U then drain_loop U ts else ts)"
  unfolding acc_def U_def
  by (simp add: compute_propulsion_def Let_def fdiv_def py_sum_sum_list split: prod.splits)

lemma compute_propulsion_total: "compute_propulsion es ts th ori com \<noteq> None"
  by (simp add: compute_propulsion_eq)

lemma compute_propulsion_clamp:
  "compute_propulsion es ts th ori com = compute_propulsion es ts (max 0 (min 1 th)) ori com"
  by (simp add: compute_propulsion_def)

lemma compute_propulsion_SomeD:
  fixes es ts th ori com
  defines "acc \<equiv> engine_loop es (max 0 (min 1 th)) ori com ((0, 0), 0, 0)"
  defines "U \<equiv> min (sum_list (map fuel_level ts)) (snd (snd acc))"
  assumes "compute_propulsion es ts th ori com = Some (p, ts')"
  shows "force p = (if 0 < snd (snd acc) then mul (fst acc) (U / snd (snd acc)) else fst acc)"
    and "PropulsionResult.torque p =
           (if 0 < snd (snd acc) then fst (snd acc) * (U / snd (snd acc)) else fst (snd acc))"
    and "fuel_used p = U"
    and "ts' = (if 0 < U then drain_loop U ts else ts)"
proof -
  have "Some (p, ts') =
     Some (\<lparr>force = (if 0 < snd (snd acc) then mul (fst acc) (U / snd (snd acc)) else fst acc),
             torque = (if 0 < snd (snd acc) then fst (snd acc) * (U / snd (snd acc))
                       else fst (snd acc)),
             fuel_used = U\<rparr>,
           if 0 < U then drain_loop U ts else ts)"
    unfolding acc_def U_def assms(3) [symmetric] by (rule compute_propulsion_eq)
  then have p: "p = \<lparr>force = (if 0 < snd (snd acc) then mul (fst acc) (U / snd (snd acc)) else fst acc),
             torque = (if 0 < snd (snd acc) then fst (snd acc) * (U / snd (snd acc))
                       else fst (snd acc)),
             fuel_used = U\<rparr>"
    and t: "ts' = (if 0 < U then drain_loop U ts else ts)"
    by (simp_all only: option.inject prod.inject)
  show "force p = (if 0 < snd (snd acc) then mul (fst acc) (U / snd (snd acc)) else fst acc)"
    by (subst p) (simp only: PropulsionResult.select_convs)
  show "PropulsionResult.torque p =
           (if 0 < snd (snd acc) then fst (snd acc) * (U / snd (snd acc)) else fst (snd acc))"
    by (subst p) (simp only: PropulsionResult.select_convs)
  show "fuel_used p = U"
    by (subst p) (simp only: PropulsionResult.select_convs)
  show "ts' = (if 0 < U then drain_loop U ts else ts)"
    by (rule t)
qed

lemma compute_propulsion_drains:
  assumes "compute_propulsion es ts th ori com = Some (p, ts')"
  shows "ts' = (if 0 < fuel_used p then drain_loop (fuel_used p) ts else ts)"
  using compute_propulsion_SomeD(4) [OF assms]
  unfolding compute_propulsion_SomeD(3) [OF assms, symmetric] .

lemma drain_loop_truncate:
  "map Component.truncate (drain_loop d ts) = map Component.truncate ts"
  by (induction ts arbitrary: d) (simp_all add: Let_def Component.truncate_def)

lemma drain_loop_frame:
  "map (\<lambda>t. t\<lparr>fuel_level := 0\<rparr>) (drain_loop d ts) = map (\<lambda>t. t\<lparr>fuel_level := 0\<rparr>) ts"
  by (induction ts arbitrary: d) (simp_all add: Let_def)

lemma compute_propulsion_tanks:
  assumes "compute_propulsion es ts th ori com = Some (p, ts')"
  shows "map Component.truncate ts' = map Component.truncate ts"
    and "map (\<lambda>t. t\<lparr>fuel_level := 0\<rparr>) ts' = map (\<lambda>t. t\<lparr>fuel_level := 0\<rparr>) ts"
  by (simp_all add: compute_propulsion_drains [OF assms] drain_loop_truncate drain_loop_frame)

lemma all_components_fuel_tanks:
  "map Component.truncate ts' = map Component.truncate (fuel_tanks s) \<Longrightarrow>
   all_components (s\<lparr>fuel_tanks := ts'\<rparr>) = all_components s"
  by (simp add: all_components_def)

lemma Spaceship_mass_cong:
  assumes "all_components s' = all_components s"
  shows "Spaceship_mass s' = Spaceship_mass s"
  unfolding Spaceship_mass_def assms by (rule refl)

lemma center_of_mass_cong:
  assumes "all_components s' = all_components s"
  shows "center_of_mass s' = center_of_mass s"
  unfolding center_of_mass_def Spaceship_mass_def assms by (rule refl)

lemma moment_of_inertia_cong:
  assumes "all_components s' = all_components s"
  shows "moment_of_inertia s' = moment_of_inertia s"
  unfolding moment_of_inertia_def center_of_mass_cong [OF assms] assms by (rule refl)

lemma moment_of_inertia_total: "moment_of_inertia s \<noteq> None"
  by (simp add: moment_of_inertia_def center_of_mass_total)

lemma simulate_step_cases:
  obtains com p tanks aero moi r where
    "center_of_mass s = Some com"
    "compute_propulsion (engines s) (fuel_tanks s) th (orientation s) com = Some (p, tanks)"
    "compute_aero_forces (all_components s) (wings s) (velocity s) (angular_velocity s)
       (orientation s) com = Some aero"
    "moment_of_inertia s = Some moi"
    "integrate (position s) (velocity s) (orientation s) (angular_velocity s)
       (add (add (force p) (linear_f aero)) (0, - Spaceship_mass s * EARTH_GRAVITY))
       (PropulsionResult.torque p + ForceResult.torque aero)
       (Spaceship_mass s) (max moi (1 / 1000)) dt = Some r"
    "apply_controls s th d = Some (p, aero, s\<lparr>fuel_tanks := tanks\<rparr>)"
    "simulate_step s th dt cs =
       Some (s\<lparr>fuel_tanks := tanks, position := fst r, velocity := fst (snd r),
               orientation := fst (snd (snd r)), angular_velocity := snd (snd (snd r))\<rparr>)"
proof -
  obtain com where com: "center_of_mass s = Some com"
    by (simp add: center_of_mass_total)
  obtain p tanks where p:
    "compute_propulsion (engines s) (fuel_tanks s) th (orientation s) com = Some (p, tanks)"
  proof (rule returnsE [OF compute_propulsion_total])
    fix y assume "compute_propulsion (engines s) (fuel_tanks s) th (orientation s) com = Some y"
    then show thesis using that [of "fst y" "snd y"] by simp
  qed
  let ?s = "s\<lparr>fuel_tanks := tanks\<rparr>"
  have ac: "all_components ?s = all_components s"
    using compute_propulsion_tanks(1) [OF p] by (rule all_components_fuel_tanks)
  obtain aero where aero:
    "compute_aero_forces (all_components s) (wings s) (velocity s) (angular_velocity s)
       (orientation s) com = Some aero"
    by (rule returnsE [OF compute_aero_forces_total])
  obtain moi where moi: "moment_of_inertia s = Some moi"
    by (rule returnsE [OF moment_of_inertia_total])
  obtain r where r: "integrate (position s) (velocity s) (orientation s) (angular_velocity s)
       (add (add (force p) (linear_f aero)) (0, - Spaceship_mass s * EARTH_GRAVITY))
       (PropulsionResult.torque p + ForceResult.torque aero)
       (Spaceship_mass s) (max moi (1 / 1000)) dt = Some r"
    by (rule returnsE [OF integrate_total])
  have m': "Spaceship_mass ?s = Spaceship_mass s"
    by (rule Spaceship_mass_cong [OF ac])
  have com': "center_of_mass ?s = Some com"
    unfolding center_of_mass_cong [OF ac] by (rule com)
  have moi': "moment_of_inertia ?s = Some moi"
    unfolding moment_of_inertia_cong [OF ac] by (rule moi)
  have a: "\<And>d. apply_controls s th d = Some (p, aero, ?s)"
    unfolding apply_controls_def com by (simp add: p ac aero)
  have "simulate_step s th dt cs =
       Some (s\<lparr>fuel_tanks := tanks, position := fst r, velocity := fst (snd r),
               orientation := fst (snd (snd r)), angular_velocity := snd (snd (snd r))\<rparr>)"
  proof -
    obtain x v' o' w' where rr: "r = (x, v', o', w')" by (cases r)
    have i: "integrate (position ?s) (velocity ?s) (orientation ?s) (angular_velocity ?s)
       (add (add (force p) (linear_f aero)) (0, - Spaceship_mass s * EARTH_GRAVITY))
       (PropulsionResult.torque p + ForceResult.torque aero + 0)
       (Spaceship_mass s) (max moi (1 / 1000)) dt = Some (x, v', o', w')"
      using r rr by simp
    show ?thesis
      unfolding simulate_step_def Let_def a
      by (simp only: bind.bind_lunit prod.case m' com' moi' i rr fst_conv snd_conv)
  qed
  then show thesis
    by (rule that [OF com p aero moi r a])
qed

subsection \<open>Throttle clamping\<close>

lemma apply_controls_clamp:
  "apply_controls s th d = apply_controls s (max 0 (min 1 th)) d"
  unfolding apply_controls_def by (subst compute_propulsion_clamp) (rule refl)

lemma simulate_step_clamp:
  "simulate_step s th dt cs = simulate_step s (max 0 (min 1 th)) dt cs"
  unfolding simulate_step_def by (subst apply_controls_clamp) (rule refl)

lemma simulate_step_total: "simulate_step s th dt cs \<noteq> None"
  by (rule simulate_step_cases [of s th dt "Map.empty" cs]) simp

text \<open>
  Claim C4. A step with throttle 2 is the step with throttle 1 and a step with throttle -1
  is the step with throttle 0: the resulting craft (kinematic state and tank levels) and
  the propulsion and aerodynamic results of the tick are equal. Every throttle acts as its
  clamp to the interval from 0 to 1, and the step always returns a craft: no throttle is
  rejected.
\<close>

theorem throttle_clamped:
  "simulate_step s 2 dt cs = simulate_step s 1 dt cs
   \<and> apply_controls s 2 d = apply_controls s 1 d
   \<and> simulate_step s (- 1) dt cs = simulate_step s 0 dt cs
   \<and> apply_controls s (- 1) d = apply_controls s 0 d
   \<and> simulate_step s th dt cs = simulate_step s (max 0 (min 1 th)) dt cs
   \<and> apply_controls s th d = apply_controls s (max 0 (min 1 th)) d
   \<and> simulate_step s th dt cs \<noteq> None"
proof -
  have "simulate_step s 2 dt cs = simulate_step s 1 dt cs"
    by (subst simulate_step_clamp) simp
  moreover have "apply_controls s 2 d = apply_controls s 1 d"
    by (subst apply_controls_clamp) simp
  moreover have "simulate_step s (- 1) dt cs = simulate_step s 0 dt cs"
    by (subst simulate_step_clamp) simp
  moreover have "apply_controls s (- 1) d = apply_controls s 0 d"
    by (subst apply_controls_clamp) simp
  ultimately show ?thesis
    using simulate_step_clamp [of s th dt cs] apply_controls_clamp [of s th d]
      simulate_step_total [of s th dt cs]
    by (simp only: simp_thms)
qed

subsection \<open>Aerodynamics at rest, the frame of a step, the empty craft\<close>

lemma compute_aero_forces_at_rest:
  "compute_aero_forces cs ws (0, 0) 0 ori com = Some \<lparr>linear_f = (0, 0), torque = 0\<rparr>"
  by (simp add: compute_aero_forces_def drag_loop_at_rest lift_loop_at_rest)

lemma aerodynamic_drag_at_rest: "aerodynamic_drag (0, 0) a cd = Some (0, 0)"
  by (simp add: aerodynamic_drag_def)

text \<open>
  Claim C7. For a craft with zero velocity and zero angular velocity the aerodynamic model
  returns the zero force and the zero torque, about any point \<open>com\<close>: the local airflow of
  every component is zero, so the drag of every component and the lift of every wing are
  the zero vector. Nothing on the path divides by zero: \<open>normalize_v\<close> returns the zero
  vector for the zero vector, and \<open>normalize_v\<close> and \<open>aerodynamic_drag\<close> return for every
  input.
\<close>

theorem aero_forces_zero_at_rest:
  assumes "velocity s = (0, 0)" and "angular_velocity s = 0"
  shows "compute_aero_forces (all_components s) (wings s) (velocity s) (angular_velocity s)
           (orientation s) com = Some \<lparr>linear_f = (0, 0), torque = 0\<rparr>
    \<and> (\<forall>c \<in> set (all_components s).
          aerodynamic_drag
            (rotate_v (add (velocity s)
                         (- angular_velocity s * (snd (Component.position c) - snd com),
                          angular_velocity s * (fst (Component.position c) - fst com)))
               (- orientation s))
            (drag_area c) DRAG_COEFFICIENT = Some (0, 0))
    \<and> (\<forall>w \<in> set (wings s).
          aerodynamic_lift w
            (rotate_v (add (velocity s)
                         (- angular_velocity s * (snd (Component.position w) - snd com),
                          angular_velocity s * (fst (Component.position w) - fst com)))
               (- orientation s)) = (0, 0))
    \<and> normalize_v (0, 0) = Some (0, 0)
    \<and> normalize_v v \<noteq> None
    \<and> aerodynamic_drag v a cd \<noteq> None"
proof -
  have local: "\<And>x y. rotate_v (add (0, 0) (- 0 * x, 0 * y)) (- orientation s) = (0, 0)"
    by (simp add: add_def)
  show ?thesis
    unfolding assms local
    by (simp add: compute_aero_forces_at_rest aerodynamic_drag_at_rest aerodynamic_lift_at_rest
        normalize_v_total aerodynamic_drag_total)
qed

theorem aero_forces_zero_at_rest_witness:
  "velocity starved_craft = (0, 0) \<and> angular_velocity starved_craft = 0
   \<and> compute_aero_forces (all_components starved_craft) (wings starved_craft)
        (velocity starved_craft) (angular_velocity starved_craft) (orientation starved_craft)
        (0, 0) = Some \<lparr>linear_f = (0, 0), torque = 0\<rparr>"
proof -
  have v: "velocity starved_craft = (0, 0)" and w: "angular_velocity starved_craft = 0"
    by (simp_all add: starved_craft_def)
  from aero_forces_zero_at_rest [OF v w, of "(0, 0)"] v w show ?thesis
    by (simp only: simp_thms)
qed

text \<open>
  Claim C8. A step returns the new craft and nothing else. In the new craft the lists of
  generic components, engines and wings are the lists of the old craft; the tank list has
  the same length, and its tanks, in the same order, agree with the old ones on every field
  but \<open>fuel_level\<close> (the two lists are equal once every level is overwritten with the same
  value): in particular the fields of the base class and the capacity are the old ones.
  What remains, and may change, is the kinematic state and the fuel levels.
\<close>

theorem simulate_step_frame:
  "\<exists>s'. simulate_step s th dt cs = Some s'
      \<and> components s' = components s
      \<and> engines s' = engines s
      \<and> wings s' = wings s
      \<and> length (fuel_tanks s') = length (fuel_tanks s)
      \<and> map (\<lambda>t. t\<lparr>fuel_level := 0\<rparr>) (fuel_tanks s') = map (\<lambda>t. t\<lparr>fuel_level := 0\<rparr>) (fuel_tanks s)
      \<and> map Component.truncate (fuel_tanks s') = map Component.truncate (fuel_tanks s)
      \<and> map fuel_capacity (fuel_tanks s') = map fuel_capacity (fuel_tanks s)"
proof (rule simulate_step_cases [of s th dt "Map.empty" cs])
  fix com p tanks aero moi r
  assume p: "compute_propulsion (engines s) (fuel_tanks s) th (orientation s) com = Some (p, tanks)"
    and step: "simulate_step s th dt cs =
       Some (s\<lparr>fuel_tanks := tanks, position := fst r, velocity := fst (snd r),
               orientation := fst (snd (snd r)), angular_velocity := snd (snd (snd r))\<rparr>)"
  have frame: "map (\<lambda>t. t\<lparr>fuel_level := 0\<rparr>) tanks = map (\<lambda>t. t\<lparr>fuel_level := 0\<rparr>) (fuel_tanks s)"
    by (rule compute_propulsion_tanks(2) [OF p])
  then have "length tanks = length (fuel_tanks s)"
    by (rule map_eq_imp_length_eq)
  moreover have "map Component.truncate tanks = map Component.truncate (fuel_tanks s)"
    by (rule compute_propulsion_tanks(1) [OF p])
  moreover have "map fuel_capacity tanks = map fuel_capacity (fuel_tanks s)"
    using arg_cong [OF frame, of "map fuel_capacity"] by (simp add: comp_def)
  ultimately show ?thesis
    using frame step by simp
qed

text \<open>
  Claim C10. For a craft whose total mass is zero the centre of mass is \<open>(0, 0)\<close> and no
  division by the zero mass takes place; the moment of inertia, the propulsion and the
  aerodynamic model about that centre, \<open>apply_controls\<close> and \<open>simulate_step\<close> all return.
  The craft without components is such a craft.
\<close>

theorem zero_mass_center_of_mass:
  assumes "Spaceship_mass s = 0"
  shows "center_of_mass s = Some (0, 0)
    \<and> moment_of_inertia s \<noteq> None
    \<and> compute_propulsion (engines s) (fuel_tanks s) th (orientation s) (0, 0) \<noteq> None
    \<and> compute_aero_forces (all_components s) (wings s) (velocity s) (angular_velocity s)
         (orientation s) (0, 0) \<noteq> None
    \<and> apply_controls s th d \<noteq> None
    \<and> simulate_step s th dt cs \<noteq> None"
proof -
  have "apply_controls s th d \<noteq> None"
    by (rule simulate_step_cases [of s th dt d cs]) simp
  then show ?thesis
    using assms
    by (simp add: center_of_mass_total moment_of_inertia_total compute_propulsion_total
        compute_aero_forces_total simulate_step_total)
qed

theorem zero_mass_center_of_mass_witness:
  "Spaceship_mass empty_craft = 0
   \<and> all_components empty_craft = []
   \<and> center_of_mass empty_craft = Some (0, 0)
   \<and> simulate_step empty_craft 1 1 None \<noteq> None"
proof -
  have m: "Spaceship_mass empty_craft = 0"
    by (simp add: Spaceship_mass_def all_components_def empty_craft_def py_sum_def)
  have "all_components empty_craft = []"
    by (simp add: all_components_def empty_craft_def)
  with m zero_mass_center_of_mass [OF m, of 1 Map.empty 1 None] show ?thesis
    by (simp only: simp_thms)
qed

subsection \<open>The loops of the propulsion model\<close>

lemma engine_loop_sums:
  "engine_loop es th ori com (F, T, N) =
     (add F (nominal_force es th ori), T + nominal_torque es th ori com, N + fuel_required es th)"
proof (induction es arbitrary: F T N)
  case Nil
  show ?case
    by (simp add: nominal_force_def nominal_torque_def fuel_required_def add_def)
next
  case (Cons e es)
  show ?case
    by (simp add: Cons.IH Let_def nominal_force_def nominal_torque_def fuel_required_def
        engine_force_def add_def)
qed

lemma engine_loop_start:
  "engine_loop es th ori com ((0, 0), 0, 0) =
     (nominal_force es th ori, nominal_torque es th ori com, fuel_required es th)"
  by (simp add: engine_loop_sums add_def)



lemma drain_loop_invariant:
  "\<forall>t \<in> set ts. tank_invariant t \<Longrightarrow> \<forall>t \<in> set (drain_loop d ts). tank_invariant t"
proof (induction ts arbitrary: d)
  case Nil
  show ?case by simp
next
  case (Cons t ts)
  have rest: "\<forall>t \<in> set (drain_loop (d - min (fuel_level t) d) ts). tank_invariant t"
    using Cons.prems by (intro Cons.IH) simp
  have "tank_invariant t" using Cons.prems by simp
  then have "0 < d \<Longrightarrow> tank_invariant (t\<lparr>fuel_level := fuel_level t - min (fuel_level t) d\<rparr>)"
    by (simp add: tank_invariant_def min_def)
  with rest Cons.prems show ?case
    by (simp add: Let_def)
qed


lemma fuel_available_nonneg:
  "\<forall>t \<in> set ts. 0 \<le> fuel_level t \<Longrightarrow> 0 \<le> fuel_available ts"
  unfolding fuel_available_def by (induction ts) simp_all

subsection \<open>Fuel conservation\<close>

lemma compute_propulsion_spec:
  fixes es ts th ori com
  defines "N \<equiv> fuel_required es (max 0 (min 1 th))"
  defines "U \<equiv> min (fuel_available ts) N"
  assumes "compute_propulsion es ts th ori com = Some (p, ts')"
  shows "force p = (if 0 < N then mul (nominal_force es (max 0 (min 1 th)) ori) (U / N)
                    else nominal_force es (max 0 (min 1 th)) ori)"
    and "PropulsionResult.torque p =
           (if 0 < N then nominal_torque es (max 0 (min 1 th)) ori com * (U / N)
            else nominal_torque es (max 0 (min 1 th)) ori com)"
    and "fuel_used p = U"
    and "ts' = (if 0 < U then drain_loop U ts else ts)"
  using compute_propulsion_SomeD [OF assms(3)]
  unfolding N_def U_def engine_loop_start fuel_available_def fst_conv snd_conv
  by blast+


lemma fuel_invariant_aux:
  assumes "compute_propulsion es ts th ori com = Some (p, ts')"
    and "\<forall>t \<in> set ts. tank_invariant t"
  shows "\<forall>t \<in> set ts'. tank_invariant t"
proof -
  have "ts' = ts \<or> ts' = drain_loop (fuel_used p) ts"
    using compute_propulsion_drains [OF assms(1)] by (simp split: if_splits)
  with assms(2) drain_loop_invariant [OF assms(2)] show ?thesis
    by blast
qed


lemma starved_propulsion:
  "compute_propulsion [starved_engine] [starved_tank] 1 0 (0, 0) =
     Some (\<lparr>force = (50, 0), torque = 0, fuel_used = 5\<rparr>, [starved_tank\<lparr>fuel_level := 0\<rparr>])"
  by (simp add: compute_propulsion_def starved_engine_def starved_tank_def rotate_v_def mul_def
      add_def sub_def cross_z_def py_sum_def fdiv_def Let_def)

subsection \<open>The tanks as objects\<close>










subsection \<open>Fuel starvation\<close>

lemma starvation_aux:
  assumes r: "compute_propulsion es ts th ori com = Some (p, ts')"
    and pos: "0 < fuel_required es (max 0 (min 1 th))"
    and less: "fuel_available ts < fuel_required es (max 0 (min 1 th))"
  shows "force p = mul (nominal_force es (max 0 (min 1 th)) ori)
                     (fuel_available ts / fuel_required es (max 0 (min 1 th)))"
    and "PropulsionResult.torque p =
           nominal_torque es (max 0 (min 1 th)) ori com *
             (fuel_available ts / fuel_required es (max 0 (min 1 th)))"
    and "fuel_used p = fuel_available ts"
proof -
  have m: "min (fuel_available ts) (fuel_required es (max 0 (min 1 th))) = fuel_available ts"
    using less by simp
  show "force p = mul (nominal_force es (max 0 (min 1 th)) ori)
                     (fuel_available ts / fuel_required es (max 0 (min 1 th)))"
    unfolding compute_propulsion_spec(1) [OF r] m using pos by simp
  show "PropulsionResult.torque p =
           nominal_torque es (max 0 (min 1 th)) ori com *
             (fuel_available ts / fuel_required es (max 0 (min 1 th)))"
    unfolding compute_propulsion_spec(2) [OF r] m using pos by simp
  show "fuel_used p = fuel_available ts"
    unfolding compute_propulsion_spec(3) [OF r] m by (rule refl)
qed

lemma starvation_scenario_aux:
  assumes "fuel_consumption e = 10" and "fuel_level t = 5"
  shows "compute_propulsion [e] [t] 1 ori com =
           Some (\<lparr>force = mul (nominal_force [e] 1 ori) (1 / 2),
                   torque = nominal_torque [e] 1 ori com * (1 / 2),
                   fuel_used = 5\<rparr>,
                 [t\<lparr>fuel_level := 0\<rparr>])"
  unfolding compute_propulsion_eq engine_loop_start
  by (simp add: fuel_required_def assms)

text \<open>
  Claim C2. Take a call in which the required fuel, the sum over the engines of fuel
  consumption times clamped throttle, exceeds the fuel available in the tanks, and in which
  no tank has a negative level (the invariant of a fuel tank) or, without that invariant,
  the required fuel is positive. Then the call returns, the returned force and torque are
  the nominal force and torque scaled by available / required, and \<open>fuel_used\<close> is the
  available fuel. For one engine with fuel consumption 10 and one tank holding 5 units, at
  throttle 1, for every orientation and centre of mass, \<open>fuel_used\<close> is 5, force and torque
  are half the nominal ones and the tank is empty afterwards.
\<close>

theorem starvation_derates_uniformly:
  "(((\<forall>t \<in> set ts. 0 \<le> fuel_level t) \<or> 0 < fuel_required es (max 0 (min 1 th)))
      \<and> fuel_available ts < fuel_required es (max 0 (min 1 th)) \<longrightarrow>
    (\<exists>p ts'. compute_propulsion es ts th ori com = Some (p, ts')
       \<and> force p = mul (nominal_force es (max 0 (min 1 th)) ori)
                      (fuel_available ts / fuel_required es (max 0 (min 1 th)))
       \<and> PropulsionResult.torque p =
           nominal_torque es (max 0 (min 1 th)) ori com *
             (fuel_available ts / fuel_required es (max 0 (min 1 th)))
       \<and> fuel_used p = fuel_available ts))
   \<and> (fuel_consumption e = 10 \<and> fuel_level t = 5 \<longrightarrow>
       compute_propulsion [e] [t] 1 ori' com' =
         Some (\<lparr>force = mul (nominal_force [e] 1 ori') (1 / 2),
                 torque = nominal_torque [e] 1 ori' com' * (1 / 2),
                 fuel_used = 5\<rparr>,
               [t\<lparr>fuel_level := 0\<rparr>]))"
proof -
  obtain y where "compute_propulsion es ts th ori com = Some y"
    by (rule returnsE [OF compute_propulsion_total])
  then have r: "compute_propulsion es ts th ori com = Some (fst y, snd y)"
    by simp
  have pos: "0 < fuel_required es (max 0 (min 1 th))"
    if "\<forall>t \<in> set ts. 0 \<le> fuel_level t"
      and "fuel_available ts < fuel_required es (max 0 (min 1 th))"
    using fuel_available_nonneg [OF that(1)] that(2) by simp
  show ?thesis
    using r pos starvation_aux [OF r] starvation_scenario_aux [of e t ori' com']
    by blast
qed

theorem starvation_derates_uniformly_witness:
  "0 \<le> fuel_level starved_tank
   \<and> fuel_available [starved_tank] = 5
   \<and> fuel_required [starved_engine] (max 0 (min 1 1)) = 10
   \<and> fuel_consumption starved_engine = 10 \<and> fuel_level starved_tank = 5
   \<and> nominal_force [starved_engine] 1 0 = (100, 0)
   \<and> nominal_torque [starved_engine] 1 0 (0, 0) = 0
   \<and> compute_propulsion [starved_engine] [starved_tank] 1 0 (0, 0) =
       Some (\<lparr>force = (50, 0), torque = 0, fuel_used = 5\<rparr>, [starved_tank\<lparr>fuel_level := 0\<rparr>])
   \<and> (50, 0) = mul (nominal_force [starved_engine] (max 0 (min 1 1)) 0)
                  (fuel_available [starved_tank] / fuel_required [starved_engine] (max 0 (min 1 1)))"
proof -
  have a: "\<forall>t \<in> set [starved_tank]. 0 \<le> fuel_level t"
    and b: "fuel_available [starved_tank] < fuel_required [starved_engine] (max 0 (min 1 1))"
    and c: "fuel_consumption starved_engine = 10" and d: "fuel_level starved_tank = 5"
    and n: "nominal_force [starved_engine] 1 0 = (100, 0)"
      "nominal_torque [starved_engine] 1 0 (0, 0) = 0"
      "fuel_available [starved_tank] = 5" "fuel_required [starved_engine] (max 0 (min 1 1)) = 10"
    by (simp_all add: fuel_required_def fuel_available_def starved_engine_def starved_tank_def
        nominal_force_def nominal_torque_def engine_force_def rotate_v_def mul_def cross_z_def
        sub_def)
  from starvation_derates_uniformly
         [of "[starved_tank]" "[starved_engine]" 1 0 "(0, 0)" starved_engine starved_tank 0 "(0, 0)"]
       a b c d n
  show ?thesis
    unfolding starved_propulsion by simp
qed

subsection \<open>Mass, centre of mass and moment of inertia\<close>

lemma all_components_relevel:
  "all_components (s\<lparr>fuel_tanks := map (\<lambda>t. t\<lparr>fuel_level := l t\<rparr>) (fuel_tanks s)\<rparr>) =
   all_components s"
  by (rule all_components_fuel_tanks) (simp add: Component.truncate_def)

lemma Spaceship_mass_sum_list: "Spaceship_mass s = sum_list (map mass (all_components s))"
  by (simp add: Spaceship_mass_def py_sum_sum_list)

lemma Spaceship_mass_attach:
  "Spaceship_mass (attach s (AnEngine e)) = Spaceship_mass s + mass e"
  "Spaceship_mass (attach s (ATank t)) = Spaceship_mass s + mass t"
  "Spaceship_mass (attach s (AWing w)) = Spaceship_mass s + mass w"
  "Spaceship_mass (attach s (APart c)) = Spaceship_mass s + mass c"
  by (simp_all add: Spaceship_mass_sum_list all_components_def Component.truncate_def)

text \<open>
  Claim C3, as amended. Mass, centre of mass and moment of inertia are functions of the
  current component lists (attaching a component changes the mass at once), but
  they read the fields \<open>mass\<close>, \<open>position\<close>, \<open>size\<close> and \<open>inertia_override\<close> only, never
  \<open>fuel_level\<close>: overwriting the fuel levels leaves the three quantities unchanged, and
  after every step, whether or not it consumes fuel, the three accessors return what they
  returned before the step.

  The claim that the mass is strictly smaller after a step that consumes fuel fails: the
  starved craft burns its 5 units of fuel and has mass 2 before and after.
\<close>

theorem derived_quantities_ignore_fuel_level:
  "(\<exists>s'. simulate_step s th dt cs = Some s'
       \<and> Spaceship_mass s' = Spaceship_mass s
       \<and> center_of_mass s' = center_of_mass s
       \<and> moment_of_inertia s' = moment_of_inertia s)
   \<and> Spaceship_mass (s\<lparr>fuel_tanks := map (\<lambda>t. t\<lparr>fuel_level := l t\<rparr>) (fuel_tanks s)\<rparr>) =
       Spaceship_mass s
   \<and> center_of_mass (s\<lparr>fuel_tanks := map (\<lambda>t. t\<lparr>fuel_level := l t\<rparr>) (fuel_tanks s)\<rparr>) =
       center_of_mass s
   \<and> moment_of_inertia (s\<lparr>fuel_tanks := map (\<lambda>t. t\<lparr>fuel_level := l t\<rparr>) (fuel_tanks s)\<rparr>) =
       moment_of_inertia s
   \<and> Spaceship_mass (attach s (AnEngine e)) = Spaceship_mass s + mass e
   \<and> Spaceship_mass (attach s (ATank t)) = Spaceship_mass s + mass t
   \<and> Spaceship_mass (attach s (AWing w)) = Spaceship_mass s + mass w
   \<and> Spaceship_mass (attach s (APart c)) = Spaceship_mass s + mass c"
proof -
  have "\<exists>s'. simulate_step s th dt cs = Some s'
       \<and> Spaceship_mass s' = Spaceship_mass s
       \<and> center_of_mass s' = center_of_mass s
       \<and> moment_of_inertia s' = moment_of_inertia s"
  proof (rule simulate_step_cases [of s th dt "Map.empty" cs])
    fix com p tanks aero moi r
    assume p: "compute_propulsion (engines s) (fuel_tanks s) th (orientation s) com = Some (p, tanks)"
      and step: "simulate_step s th dt cs =
         Some (s\<lparr>fuel_tanks := tanks, position := fst r, velocity := fst (snd r),
                 orientation := fst (snd (snd r)), angular_velocity := snd (snd (snd r))\<rparr>)"
    let ?s' = "s\<lparr>fuel_tanks := tanks, position := fst r, velocity := fst (snd r),
                 orientation := fst (snd (snd r)), angular_velocity := snd (snd (snd r))\<rparr>"
    have ac: "all_components ?s' = all_components s"
      using compute_propulsion_tanks(1) [OF p] by (simp add: all_components_def)
    show ?thesis
      using step Spaceship_mass_cong [OF ac] center_of_mass_cong [OF ac]
        moment_of_inertia_cong [OF ac]
      by blast
  qed
  then show ?thesis
    using Spaceship_mass_cong [OF all_components_relevel [of l s]]
      center_of_mass_cong [OF all_components_relevel [of l s]]
      moment_of_inertia_cong [OF all_components_relevel [of l s]]
      Spaceship_mass_attach [of s]
    by (simp only: simp_thms)
qed

lemma starved_all_components:
  "all_components starved_craft =
     [Component.truncate starved_engine, Component.truncate starved_tank]"
  "all_components starved_craft_after =
     [Component.truncate starved_engine, Component.truncate starved_tank]"
  by (simp_all add: all_components_def starved_craft_def starved_craft_after_def
      Component.truncate_def)

lemma starved_mass:
  "Spaceship_mass starved_craft = 2" "Spaceship_mass starved_craft_after = 2"
  by (simp_all add: Spaceship_mass_sum_list starved_all_components Component.truncate_def
      starved_engine_def starved_tank_def)

lemma starved_center_of_mass: "center_of_mass starved_craft = Some (0, 0)"
  by (simp add: center_of_mass_total starved_mass starved_all_components Component.truncate_def
      starved_engine_def starved_tank_def)

lemma starved_moment_of_inertia: "moment_of_inertia starved_craft = Some (1 / 3)"
  by (simp add: moment_of_inertia_def starved_center_of_mass starved_all_components
      Component.truncate_def starved_engine_def starved_tank_def inertia_def sub_def)

lemma starved_fields:
  "engines starved_craft = [starved_engine]" "fuel_tanks starved_craft = [starved_tank]"
  "wings starved_craft = []" "position starved_craft = (0, 0)" "velocity starved_craft = (0, 0)"
  "orientation starved_craft = 0" "angular_velocity starved_craft = 0"
  by (simp_all add: starved_craft_def)

lemma starved_step: "simulate_step starved_craft 1 1 None = Some starved_craft_after"
proof (rule simulate_step_cases [of starved_craft 1 1 "Map.empty" None])
  fix com p tanks aero moi r
  assume c: "center_of_mass starved_craft = Some com"
    and pr: "compute_propulsion (engines starved_craft) (fuel_tanks starved_craft) 1
           (orientation starved_craft) com = Some (p, tanks)"
    and ae: "compute_aero_forces (all_components starved_craft) (wings starved_craft)
           (velocity starved_craft) (angular_velocity starved_craft)
           (orientation starved_craft) com = Some aero"
    and mo: "moment_of_inertia starved_craft = Some moi"
    and i: "integrate (position starved_craft) (velocity starved_craft)
           (orientation starved_craft) (angular_velocity starved_craft)
           (add (add (force p) (linear_f aero)) (0, - Spaceship_mass starved_craft * EARTH_GRAVITY))
           (PropulsionResult.torque p + ForceResult.torque aero)
           (Spaceship_mass starved_craft) (max moi (1 / 1000)) 1 = Some r"
    and step: "simulate_step starved_craft 1 1 None =
           Some (starved_craft\<lparr>fuel_tanks := tanks, position := fst r, velocity := fst (snd r),
                   orientation := fst (snd (snd r)), angular_velocity := snd (snd (snd r))\<rparr>)"
  have com: "com = (0, 0)"
    using c unfolding starved_center_of_mass by simp
  have moi: "moi = 1 / 3"
    using mo unfolding starved_moment_of_inertia by simp
  have "p = \<lparr>force = (50, 0), torque = 0, fuel_used = 5\<rparr> \<and> tanks = [starved_tank\<lparr>fuel_level := 0\<rparr>]"
    using pr unfolding starved_fields com starved_propulsion by simp
  then have p: "p = \<lparr>force = (50, 0), torque = 0, fuel_used = 5\<rparr>"
    and tanks: "tanks = [starved_tank\<lparr>fuel_level := 0\<rparr>]"
    by simp_all
  have aero: "aero = \<lparr>linear_f = (0, 0), torque = 0\<rparr>"
    using ae unfolding starved_fields compute_aero_forces_at_rest by simp
  have "r = ((25, - (980665 / 100000)), (25, - (980665 / 100000)), 0, 0)"
    using i unfolding com moi p aero starved_mass starved_fields
    by (simp add: integrate_def fdiv_def add_def mul_def EARTH_GRAVITY_def)
  then show ?thesis
    unfolding step tanks by (simp add: starved_craft_after_def starved_craft_def)
qed

theorem derived_quantities_ignore_fuel_level_counterexample:
  "simulate_step starved_craft 1 1 None = Some starved_craft_after
   \<and> fuel_tanks starved_craft \<noteq> []
   \<and> fuel_available (fuel_tanks starved_craft) = 5
   \<and> fuel_available (fuel_tanks starved_craft_after) = 0
   \<and> Spaceship_mass starved_craft = 2
   \<and> Spaceship_mass starved_craft_after = 2
   \<and> \<not> Spaceship_mass starved_craft_after < Spaceship_mass starved_craft"
  by (simp add: starved_step starved_mass)
     (simp add: fuel_available_def starved_craft_def starved_craft_after_def starved_tank_def)

lemma truncate_fields:
  "mass (Component.truncate c) = mass c"
  "Component.position (Component.truncate c) = Component.position c"
  "size_wh (Component.truncate c) = size_wh c"
  "drag_area (Component.truncate c) = drag_area c"
  "inertia_override (Component.truncate c) = inertia_override c"
  by (simp_all add: Component.truncate_def)

lemma inertia_truncate: "inertia (Component.truncate c) = inertia c"
  by (simp add: inertia_def truncate_fields split: option.splits)

lemma inertia_loop_sum:
  "inertia_loop cs com acc =
     acc + (\<Sum>c\<leftarrow>cs. inertia c + mass c *
             ((fst (Component.position c) - fst com)\<^sup>2 + (snd (Component.position c) - snd com)\<^sup>2))"
  by (induction cs arbitrary: acc) (simp_all add: Let_def sub_def)

lemma moment_of_inertia_sum:
  assumes "center_of_mass s = Some com"
  shows "moment_of_inertia s =
     Some (\<Sum>c\<leftarrow>all_components s. inertia c + mass c *
             ((fst (Component.position c) - fst com)\<^sup>2 + (snd (Component.position c) - snd com)\<^sup>2))"
  unfolding moment_of_inertia_def assms by (simp add: inertia_loop_sum)

lemma sum_all_components:
  fixes f :: "Component \<Rightarrow> real"
  shows "(\<Sum>c\<leftarrow>all_components s. f c) =
     (\<Sum>c\<leftarrow>components s. f (Component.truncate c)) + (\<Sum>c\<leftarrow>engines s. f (Component.truncate c)) +
     (\<Sum>c\<leftarrow>fuel_tanks s. f (Component.truncate c)) + (\<Sum>c\<leftarrow>wings s. f (Component.truncate c))"
  by (simp add: all_components_def comp_def)

lemma inertia_plate:
  "inertia_override c = None \<Longrightarrow>
   inertia c = mass c * ((fst (size_wh c))\<^sup>2 + (snd (size_wh c))\<^sup>2) / 12"
  by (simp add: inertia_def split: prod.splits)

lemma inertia_overridden: "inertia_override c = Some v \<Longrightarrow> inertia c = v"
  by (simp add: inertia_def)

lemma twin_center_of_mass:
  assumes "all_components s = [a, b]" and "mass b = mass a"
    and "Component.position b = (- fst (Component.position a), - snd (Component.position a))"
  shows "center_of_mass s = Some (0, 0)"
  unfolding center_of_mass_total Spaceship_mass_sum_list assms(1) by (simp add: assms(2,3))

lemma twin_moment_of_inertia:
  assumes "all_components s = [a, b]" and "mass b = mass a" and "size_wh b = size_wh a"
    and "inertia_override a = None" and "inertia_override b = None"
    and "Component.position b = (- fst (Component.position a), - snd (Component.position a))"
  shows "moment_of_inertia s =
     Some (2 * (mass a * ((fst (size_wh a))\<^sup>2 + (snd (size_wh a))\<^sup>2) / 12 +
                mass a * ((fst (Component.position a))\<^sup>2 + (snd (Component.position a))\<^sup>2)))"
proof -
  have com: "center_of_mass s = Some (0, 0)"
    using assms(1,2,6) by (rule twin_center_of_mass)
  show ?thesis
    unfolding moment_of_inertia_sum [OF com] assms(1)
    by (simp add: inertia_plate assms(2-6))
qed

text \<open>
  Claim C6. The mass of a craft is the sum of the masses of the components in its four
  lists (generic components, engines, fuel tanks, wings). The centre of mass is the
  mass-weighted average of their positions (and \<open>(0, 0)\<close> when the total mass is zero, where
  there is no average). The moment of inertia is the sum, over the components of the four
  lists, of the component's own inertia plus its mass times its squared distance to the
  centre of mass. The own inertia of a component is its override when it has one, and
  \<open>mass * (w\<^sup>2 + h\<^sup>2) / 12\<close> otherwise. For a craft \<open>t\<close> whose four lists hold exactly two
  components, of equal mass and size, without override, at positions \<open>p\<close> and \<open>- p\<close>, the
  centre of mass is \<open>(0, 0)\<close> and the moment of inertia is twice
  \<open>mass * (w\<^sup>2 + h\<^sup>2) / 12 + mass * |p|\<^sup>2\<close>.
\<close>

theorem center_of_mass_and_inertia:
  "Spaceship_mass s =
     (\<Sum>c\<leftarrow>components s. mass c) + (\<Sum>c\<leftarrow>engines s. mass c) +
     (\<Sum>c\<leftarrow>fuel_tanks s. mass c) + (\<Sum>c\<leftarrow>wings s. mass c)
   \<and> center_of_mass s =
       Some (if Spaceship_mass s = 0 then (0, 0)
             else (((\<Sum>c\<leftarrow>components s. fst (Component.position c) * mass c) +
                    (\<Sum>c\<leftarrow>engines s. fst (Component.position c) * mass c) +
                    (\<Sum>c\<leftarrow>fuel_tanks s. fst (Component.position c) * mass c) +
                    (\<Sum>c\<leftarrow>wings s. fst (Component.position c) * mass c)) / Spaceship_mass s,
                   ((\<Sum>c\<leftarrow>components s. snd (Component.position c) * mass c) +
                    (\<Sum>c\<leftarrow>engines s. snd (Component.position c) * mass c) +
                    (\<Sum>c\<leftarrow>fuel_tanks s. snd (Component.position c) * mass c) +
                    (\<Sum>c\<leftarrow>wings s. snd (Component.position c) * mass c)) / Spaceship_mass s))
   \<and> (center_of_mass s = Some com \<longrightarrow>
       moment_of_inertia s =
         Some ((\<Sum>c\<leftarrow>components s. inertia c + mass c *
                  ((fst (Component.position c) - fst com)\<^sup>2 + (snd (Component.position c) - snd com)\<^sup>2)) +
               (\<Sum>c\<leftarrow>engines s. inertia c + mass c *
                  ((fst (Component.position c) - fst com)\<^sup>2 + (snd (Component.position c) - snd com)\<^sup>2)) +
               (\<Sum>c\<leftarrow>fuel_tanks s. inertia c + mass c *
                  ((fst (Component.position c) - fst com)\<^sup>2 + (snd (Component.position c) - snd com)\<^sup>2)) +
               (\<Sum>c\<leftarrow>wings s. inertia c + mass c *
                  ((fst (Component.position c) - fst com)\<^sup>2 + (snd (Component.position c) - snd com)\<^sup>2))))
   \<and> (inertia_override c = None \<longrightarrow>
       inertia c = mass c * ((fst (size_wh c))\<^sup>2 + (snd (size_wh c))\<^sup>2) / 12)
   \<and> (inertia_override c = Some v \<longrightarrow> inertia c = v)
   \<and> (map Component.truncate (components t) @ map Component.truncate (engines t) @
      map Component.truncate (fuel_tanks t) @ map Component.truncate (wings t) = [a, b]
      \<and> mass b = mass a \<and> size_wh b = size_wh a
      \<and> inertia_override a = None \<and> inertia_override b = None
      \<and> Component.position b = (- fst (Component.position a), - snd (Component.position a)) \<longrightarrow>
      center_of_mass t = Some (0, 0)
      \<and> moment_of_inertia t =
          Some (2 * (mass a * ((fst (size_wh a))\<^sup>2 + (snd (size_wh a))\<^sup>2) / 12 +
                     mass a * ((fst (Component.position a))\<^sup>2 + (snd (Component.position a))\<^sup>2))))"
proof (intro conjI impI)
  show "Spaceship_mass s =
     (\<Sum>c\<leftarrow>components s. mass c) + (\<Sum>c\<leftarrow>engines s. mass c) +
     (\<Sum>c\<leftarrow>fuel_tanks s. mass c) + (\<Sum>c\<leftarrow>wings s. mass c)"
    unfolding Spaceship_mass_sum_list sum_all_components truncate_fields by (rule refl)
  show "center_of_mass s =
       Some (if Spaceship_mass s = 0 then (0, 0)
             else (((\<Sum>c\<leftarrow>components s. fst (Component.position c) * mass c) +
                    (\<Sum>c\<leftarrow>engines s. fst (Component.position c) * mass c) +
                    (\<Sum>c\<leftarrow>fuel_tanks s. fst (Component.position c) * mass c) +
                    (\<Sum>c\<leftarrow>wings s. fst (Component.position c) * mass c)) / Spaceship_mass s,
                   ((\<Sum>c\<leftarrow>components s. snd (Component.position c) * mass c) +
                    (\<Sum>c\<leftarrow>engines s. snd (Component.position c) * mass c) +
                    (\<Sum>c\<leftarrow>fuel_tanks s. snd (Component.position c) * mass c) +
                    (\<Sum>c\<leftarrow>wings s. snd (Component.position c) * mass c)) / Spaceship_mass s))"
    unfolding center_of_mass_total sum_all_components truncate_fields by (rule refl)
  show "moment_of_inertia s =
         Some ((\<Sum>c\<leftarrow>components s. inertia c + mass c *
                  ((fst (Component.position c) - fst com)\<^sup>2 + (snd (Component.position c) - snd com)\<^sup>2)) +
               (\<Sum>c\<leftarrow>engines s. inertia c + mass c *
                  ((fst (Component.position c) - fst com)\<^sup>2 + (snd (Component.position c) - snd com)\<^sup>2)) +
               (\<Sum>c\<leftarrow>fuel_tanks s. inertia c + mass c *
                  ((fst (Component.position c) - fst com)\<^sup>2 + (snd (Component.position c) - snd com)\<^sup>2)) +
               (\<Sum>c\<leftarrow>wings s. inertia c + mass c *
                  ((fst (Component.position c) - fst com)\<^sup>2 + (snd (Component.position c) - snd com)\<^sup>2)))"
    if "center_of_mass s = Some com"
    unfolding moment_of_inertia_sum [OF that] sum_all_components truncate_fields inertia_truncate
    by (rule refl)
  show "inertia c = mass c * ((fst (size_wh c))\<^sup>2 + (snd (size_wh c))\<^sup>2) / 12"
    if "inertia_override c = None"
    using that by (rule inertia_plate)
  show "inertia c = v" if "inertia_override c = Some v"
    using that by (rule inertia_overridden)
  assume twin: "map Component.truncate (components t) @ map Component.truncate (engines t) @
      map Component.truncate (fuel_tanks t) @ map Component.truncate (wings t) = [a, b]
      \<and> mass b = mass a \<and> size_wh b = size_wh a
      \<and> inertia_override a = None \<and> inertia_override b = None
      \<and> Component.position b = (- fst (Component.position a), - snd (Component.position a))"
  then have ab: "all_components t = [a, b]"
    unfolding all_components_def by simp
  show "center_of_mass t = Some (0, 0)"
    using ab twin by (intro twin_center_of_mass [of t a b]) simp_all
  show "moment_of_inertia t =
          Some (2 * (mass a * ((fst (size_wh a))\<^sup>2 + (snd (size_wh a))\<^sup>2) / 12 +
                     mass a * ((fst (Component.position a))\<^sup>2 + (snd (Component.position a))\<^sup>2)))"
    using ab twin by (intro twin_moment_of_inertia [of t a b]) simp_all
qed

theorem center_of_mass_and_inertia_witness:
  "Spaceship_mass mixed_craft = 8
   \<and> center_of_mass mixed_craft = Some (1 / 2, 0)
   \<and> inertia_override mixed_part = Some 7 \<and> inertia mixed_part = 7
   \<and> inertia_override mixed_engine = None \<and> inertia mixed_engine = 6
   \<and> moment_of_inertia mixed_craft = Some 42
   \<and> map Component.truncate (components twin_craft) @ map Component.truncate (engines twin_craft) @
      map Component.truncate (fuel_tanks twin_craft) @ map Component.truncate (wings twin_craft) =
        [Component.truncate (twin_engine (1, 2)), Component.truncate (twin_engine (- 1, - 2))]
   \<and> center_of_mass twin_craft = Some (0, 0)
   \<and> moment_of_inertia twin_craft = Some 40"
proof -
  let ?a = "Component.truncate (twin_engine (1, 2))"
  let ?b = "Component.truncate (twin_engine (- 1, - 2))"
  have lists: "map Component.truncate (components twin_craft) @
      map Component.truncate (engines twin_craft) @
      map Component.truncate (fuel_tanks twin_craft) @ map Component.truncate (wings twin_craft) =
        [?a, ?b]"
    by (simp add: twin_craft_def)
  have twin: "mass ?b = mass ?a" "size_wh ?b = size_wh ?a" "inertia_override ?a = None"
    "inertia_override ?b = None"
    "Component.position ?b = (- fst (Component.position ?a), - snd (Component.position ?a))"
    by (simp_all add: twin_engine_def truncate_fields)
  have val: "mass ?a = 3" "size_wh ?a = (2, 4)" "Component.position ?a = (1, 2)"
    by (simp_all add: twin_engine_def truncate_fields)
  have ov: "inertia_override mixed_part = Some 7" "inertia_override mixed_engine = None"
    by (simp_all add: mixed_part_def mixed_engine_def)
  note inst = center_of_mass_and_inertia [of mixed_craft "(1 / 2, 0)" _ _ twin_craft ?a ?b]
  have m: "Spaceship_mass mixed_craft = 8"
    using inst [of mixed_part 7]
    by (simp add: mixed_craft_def mixed_part_def mixed_engine_def mixed_tank_def mixed_wing_def)
  have com: "center_of_mass mixed_craft = Some (1 / 2, 0)"
    using inst [of mixed_part 7] unfolding m
    by (simp add: mixed_craft_def mixed_part_def mixed_engine_def mixed_tank_def mixed_wing_def)
  have ip: "inertia mixed_part = 7"
    using inst [of mixed_part 7] ov by blast
  have ie: "inertia mixed_engine = 6"
    using inst [of mixed_engine 0] ov by (simp add: mixed_engine_def)
  have it: "inertia mixed_tank = 6"
    using inst [of mixed_tank 0] by (simp add: mixed_tank_def)
  have iw: "inertia mixed_wing = 3"
    using inst [of mixed_wing 0] by (simp add: mixed_wing_def)
  have moi: "moment_of_inertia mixed_craft = Some 42"
  proof -
    have "moment_of_inertia mixed_craft =
      Some ((\<Sum>c\<leftarrow>components mixed_craft. inertia c + mass c *
                  ((fst (Component.position c) - fst ((1 / 2, 0) :: Vector2))\<^sup>2 +
                   (snd (Component.position c) - snd ((1 / 2, 0) :: Vector2))\<^sup>2)) +
               (\<Sum>c\<leftarrow>engines mixed_craft. inertia c + mass c *
                  ((fst (Component.position c) - fst ((1 / 2, 0) :: Vector2))\<^sup>2 +
                   (snd (Component.position c) - snd ((1 / 2, 0) :: Vector2))\<^sup>2)) +
               (\<Sum>c\<leftarrow>fuel_tanks mixed_craft. inertia c + mass c *
                  ((fst (Component.position c) - fst ((1 / 2, 0) :: Vector2))\<^sup>2 +
                   (snd (Component.position c) - snd ((1 / 2, 0) :: Vector2))\<^sup>2)) +
               (\<Sum>c\<leftarrow>wings mixed_craft. inertia c + mass c *
                  ((fst (Component.position c) - fst ((1 / 2, 0) :: Vector2))\<^sup>2 +
                   (snd (Component.position c) - snd ((1 / 2, 0) :: Vector2))\<^sup>2)))"
      using inst [of mixed_part 7] com by blast
    also have "\<dots> = Some 42"
      by (simp add: mixed_craft_def ip ie it iw)
        (simp add: mixed_part_def mixed_engine_def mixed_tank_def mixed_wing_def power2_eq_square)
    finally show ?thesis .
  qed
  have "center_of_mass twin_craft = Some (0, 0)
      \<and> moment_of_inertia twin_craft =
          Some (2 * (mass ?a * ((fst (size_wh ?a))\<^sup>2 + (snd (size_wh ?a))\<^sup>2) / 12 +
                     mass ?a * ((fst (Component.position ?a))\<^sup>2 + (snd (Component.position ?a))\<^sup>2)))"
    using inst [of mixed_part 7] lists twin by blast
  then have "center_of_mass twin_craft = Some (0, 0)" "moment_of_inertia twin_craft = Some 40"
    unfolding val by simp_all
  with m com ip ie moi ov lists show ?thesis
    by (simp only: simp_thms)
qed

subsection \<open>Vertical flight\<close>







































end
